theory Spec2Isabelle
  imports Main "HOL-Library.Sublist"
begin

section \<open>JavaScript values and strings\<close>

text \<open>
  The values the handlers read from \<open>req.params\<close>, \<open>req.query\<close> and \<open>req.body\<close>:
  absent (\<open>undefined\<close>), \<open>null\<close>, a string, or an integer number of a size that
  JavaScript prints in plain decimal digits. Strings are ASCII text. Arrays and nested
  objects, which a query-string or body parser can also produce, are outside the model.
\<close>

datatype jsval = JUndefined | JNull | JStr string | JNum int

datatype exn = TypeError | StoreError

text \<open>JavaScript truthiness, as tested by \<open>if (product_id)\<close>.\<close>

fun truthy :: "jsval \<Rightarrow> bool" where
  "truthy JUndefined = False"
| "truthy JNull = False"
| "truthy (JStr s) = (s \<noteq> [])"
| "truthy (JNum n) = (n \<noteq> 0)"

text \<open>The loose comparison \<open>x == undefined\<close>: true of \<open>undefined\<close> and of \<open>null\<close>.\<close>

fun eq_undefined :: "jsval \<Rightarrow> bool" where
  "eq_undefined JUndefined = True"
| "eq_undefined JNull = True"
| "eq_undefined (JStr s) = False"
| "eq_undefined (JNum n) = False"

definition digit :: "nat \<Rightarrow> char" where
  "digit n = ''0123456789'' ! (n mod 10)"

fun decimal :: "nat \<Rightarrow> string" where
  "decimal n = (if n < 10 then [digit n] else decimal (n div 10) @ [digit n])"

definition show_int :: "int \<Rightarrow> string" where
  "show_int i = (if i < 0 then CHR ''-'' # decimal (nat (- i)) else decimal (nat i))"

text \<open>The string a template literal \<open>`${x}`\<close> puts in place of \<open>x\<close>.\<close>

fun js_toString :: "jsval \<Rightarrow> string" where
  "js_toString JUndefined = ''undefined''"
| "js_toString JNull = ''null''"
| "js_toString (JStr s) = s"
| "js_toString (JNum n) = show_int n"

text \<open>\<open>String.prototype.toLowerCase\<close> on ASCII text: the letters A to Z move to a to z.\<close>

definition lower_char :: "char \<Rightarrow> char" where
  "lower_char c =
     (case map_of (zip ''ABCDEFGHIJKLMNOPQRSTUVWXYZ'' ''abcdefghijklmnopqrstuvwxyz'') c of
        Some l \<Rightarrow> l
      | None \<Rightarrow> c)"

definition toLowerCase :: "string \<Rightarrow> string" where
  "toLowerCase s = map lower_char s"

text \<open>
  \<open>x.toLowerCase()\<close> on a request value: only a string has the method, every other
  value raises a TypeError.
\<close>

fun toLowerCase_js :: "jsval \<Rightarrow> exn + string" where
  "toLowerCase_js (JStr s) = Inr (toLowerCase s)"
| "toLowerCase_js JUndefined = Inl TypeError"
| "toLowerCase_js JNull = Inl TypeError"
| "toLowerCase_js (JNum n) = Inl TypeError"

text \<open>
  \<open>s.indexOf(q)\<close>: the position of the first occurrence of \<open>q\<close> in \<open>s\<close>, or \<open>-1\<close>
  when there is none.
\<close>

fun indexOf_from :: "nat \<Rightarrow> string \<Rightarrow> string \<Rightarrow> int" where
  "indexOf_from k [] q = (if q = [] then int k else - 1)"
| "indexOf_from k (c # cs) q =
     (if prefix q (c # cs) then int k else indexOf_from (Suc k) cs q)"

definition indexOf :: "string \<Rightarrow> string \<Rightarrow> int" where
  "indexOf s q = indexOf_from 0 s q"

text \<open>
  \<open>Array.prototype.filter\<close> with a callback that may throw: the first exception ends
  the whole call.
\<close>

fun filter_js :: "('a \<Rightarrow> exn + bool) \<Rightarrow> 'a list \<Rightarrow> exn + 'a list" where
  "filter_js f [] = Inr []"
| "filter_js f (x # xs) =
     (case f x of
        Inl e \<Rightarrow> Inl e
      | Inr b \<Rightarrow>
          (case filter_js f xs of
             Inl e \<Rightarrow> Inl e
           | Inr ys \<Rightarrow> Inr (if b then x # ys else ys)))"

section \<open>The catalogue's records\<close>

text \<open>
  Modelled from the spec: the model declarations (\<open>../database/models\<close>) are not among
  the sources. The columns are those the spec's data model lists and the controllers
  read: a product has the nine fields \<open>getProduct\<close> copies, a review has its own id,
  the four fields of the \<open>metadata\<close> object and the creation time.
\<close>

record product =
  product_id :: int
  name :: string
  description :: string
  price :: string
  discounted_price :: string
  image_1 :: string
  image_2 :: string
  thumbnail :: string
  display :: int

record attribute =
  attribute_id :: int
  name :: string

record attribute_value =
  attribute_value_id :: int
  attribute_id :: int
  av_value :: string

record category =
  category_id :: int
  department_id :: int
  name :: string
  description :: string

text \<open>\<open>req.body\<close> of the review endpoint, the \<open>metadata\<close> object built from it, and a stored review.\<close>

record review_body =
  product_id :: jsval
  review :: jsval
  rating :: jsval

record metadata = review_body +
  customer_id :: int

record review = metadata +
  review_id :: int
  created_on :: int

section \<open>The record store\<close>

text \<open>
  Modelled from the spec: the persistence layer is an external collaborator. The store
  holds one list of rows per model, the time it stamps on inserted rows, whether it can
  be reached, and the log of the calls the handlers have made to it.
\<close>

record store =
  Product :: "product list"
  Attribute :: "attribute list"
  AttributeValue :: "attribute_value list"
  Category :: "category list"
  ProductCategory :: "(int \<times> int) list"
  Review :: "review list"
  clock :: int
  available :: bool
  issued :: "string list"

record 'a found =
  count :: nat
  rows :: "'a list"

definition issue :: "string \<Rightarrow> store \<Rightarrow> store" where
  "issue q s = s\<lparr>issued := issued s @ [q]\<rparr>"

text \<open>
  Modelled from the spec: how the store reads a request value as a key or a row bound.
  A number is itself, a string of decimal digits is the number it writes, anything else
  is no number.
\<close>

definition is_digit :: "char \<Rightarrow> bool" where
  "is_digit c = (48 \<le> (of_char c :: nat) \<and> (of_char c :: nat) \<le> 57)"

definition parse_decimal :: "string \<Rightarrow> nat option" where
  "parse_decimal s =
     (if s = [] \<or> \<not> list_all is_digit s then None
      else Some (foldl (\<lambda>acc c. 10 * acc + (of_char c - 48)) 0 s))"

fun int_of_js :: "jsval \<Rightarrow> int option" where
  "int_of_js (JNum n) = Some n"
| "int_of_js (JStr s) = map_option int (parse_decimal s)"
| "int_of_js JUndefined = None"
| "int_of_js JNull = None"

definition key_eq :: "jsval \<Rightarrow> int \<Rightarrow> bool" where
  "key_eq v k = (int_of_js v = Some k)"

text \<open>
  Modelled from the spec: \<open>limit\<close> and \<open>offset\<close> of a query. An absent bound is no
  bound; a bound that is no natural number makes the store reject the query.
\<close>

fun row_bound :: "jsval \<Rightarrow> nat option option" where
  "row_bound JUndefined = Some None"
| "row_bound JNull = Some None"
| "row_bound v =
     (case int_of_js v of
        None \<Rightarrow> None
      | Some n \<Rightarrow> if n < 0 then None else Some (Some (nat n)))"

definition paginate :: "jsval \<Rightarrow> jsval \<Rightarrow> 'a list \<Rightarrow> 'a list option" where
  "paginate lim off xs =
     (case (row_bound lim, row_bound off) of
        (Some l, Some b) \<Rightarrow>
          (let ys = drop (case b of None \<Rightarrow> 0 | Some n \<Rightarrow> n) xs
           in Some (case l of None \<Rightarrow> ys | Some n \<Rightarrow> take n ys))
      | _ \<Rightarrow> None)"

text \<open>
  Modelled from the spec: \<open>findByPk\<close> resolves to the row whose primary key is the given
  value, or to nothing; \<open>findAndCountAll\<close> resolves to the number of all matching rows
  and to the page of them that \<open>limit\<close> and \<open>offset\<close> select. Either rejects when the
  store cannot be reached.
\<close>

definition findByPk ::
  "string \<Rightarrow> ('a \<Rightarrow> int) \<Rightarrow> 'a list \<Rightarrow> jsval \<Rightarrow> store \<Rightarrow> (exn + 'a option) \<times> store" where
  "findByPk model pk table key s =
     (let s' = issue (model @ ''.findByPk'') s
      in if available s then (Inr (find (\<lambda>r. key_eq key (pk r)) table), s')
         else (Inl StoreError, s'))"

definition findAndCountAll ::
  "string \<Rightarrow> 'a list \<Rightarrow> jsval \<Rightarrow> jsval \<Rightarrow> store \<Rightarrow> (exn + 'a found) \<times> store" where
  "findAndCountAll model matching lim off s =
     (let s' = issue (model @ ''.findAndCountAll'') s
      in if available s then
           (case paginate lim off matching of
              None \<Rightarrow> (Inl StoreError, s')
            | Some rs \<Rightarrow> (Inr \<lparr>count = length matching, rows = rs\<rparr>, s'))
         else (Inl StoreError, s'))"

definition Product_findByPk :: "jsval \<Rightarrow> store \<Rightarrow> (exn + product option) \<times> store" where
  "Product_findByPk key s = findByPk ''Product'' product.product_id (Product s) key s"

definition Review_findByPk :: "jsval \<Rightarrow> store \<Rightarrow> (exn + review option) \<times> store" where
  "Review_findByPk key s = findByPk ''Review'' review_id (Review s) key s"

definition Category_findByPk :: "jsval \<Rightarrow> store \<Rightarrow> (exn + category option) \<times> store" where
  "Category_findByPk key s = findByPk ''Category'' category_id (Category s) key s"

definition Product_findAndCountAll ::
  "jsval \<Rightarrow> jsval \<Rightarrow> store \<Rightarrow> (exn + product found) \<times> store" where
  "Product_findAndCountAll lim off s = findAndCountAll ''Product'' (Product s) lim off s"

text \<open>
  Modelled from the spec: \<open>include: [{model: Attribute, where: {attribute_id}}]\<close> joins
  each attribute value to its parent attribute and keeps the values whose parent has
  the given id.
\<close>

definition values_of_attribute :: "jsval \<Rightarrow> store \<Rightarrow> attribute_value list" where
  "values_of_attribute key s =
     filter (\<lambda>v. list_ex (\<lambda>a. attribute.attribute_id a = attribute_value.attribute_id v
                              \<and> key_eq key (attribute.attribute_id a)) (Attribute s))
       (AttributeValue s)"

definition AttributeValue_findAndCountAll ::
  "jsval \<Rightarrow> jsval \<Rightarrow> jsval \<Rightarrow> store \<Rightarrow> (exn + attribute_value found) \<times> store" where
  "AttributeValue_findAndCountAll key lim off s =
     findAndCountAll ''AttributeValue'' (values_of_attribute key s) lim off s"

text \<open>
  Modelled from the spec: \<open>include: [{model: Product, where: {product_id}}]\<close> joins the
  categories to the products through the product-category table and keeps the
  categories of the product with the given id.
\<close>

definition categories_of_product :: "jsval \<Rightarrow> store \<Rightarrow> category list" where
  "categories_of_product key s =
     filter (\<lambda>c. list_ex (\<lambda>(p, cid). cid = category_id c \<and> key_eq key p
                              \<and> list_ex (\<lambda>x. product.product_id x = p) (Product s))
                   (ProductCategory s))
       (Category s)"

definition Category_findAndCountAll :: "jsval \<Rightarrow> store \<Rightarrow> (exn + category found) \<times> store" where
  "Category_findAndCountAll key s =
     findAndCountAll ''Category'' (categories_of_product key s) JUndefined JUndefined s"

text \<open>
  Modelled from the spec: \<open>Review.create\<close> appends the row, giving it a fresh id and the
  store's time as its creation time.
\<close>

definition Review_create :: "metadata \<Rightarrow> store \<Rightarrow> (exn + review) \<times> store" where
  "Review_create md s =
     (let s' = issue ''Review.create'' s
      in if available s then
           (let r = \<lparr>review_body.product_id = review_body.product_id md,
                     review_body.review = review_body.review md,
                     review_body.rating = review_body.rating md,
                     metadata.customer_id = metadata.customer_id md,
                     review.review_id = foldr max (map review_id (Review s)) 0 + 1,
                     review.created_on = clock s\<rparr>
            in (Inr r, s'\<lparr>Review := Review s @ [r]\<rparr>))
         else (Inl StoreError, s'))"

section \<open>Requests and responses\<close>

text \<open>
  Modelled from the spec: the serialized form of a retrieved product, as
  \<open>JSON.stringify\<close> writes a plain object holding the product's columns. Strings are
  quoted with the escapes of JSON; the two decimal columns arrive as text.
\<close>

definition hex_digit :: "nat \<Rightarrow> char" where
  "hex_digit n = ''0123456789abcdef'' ! (n mod 16)"

definition json_escape :: "char \<Rightarrow> string" where
  "json_escape c =
     (let n = (of_char c :: nat)
      in if n = 34 then [CHR 0x5C, CHR 0x22]
         else if n = 92 then [CHR 0x5C, CHR 0x5C]
         else if n = 8 then [CHR 0x5C, CHR ''b'']
         else if n = 9 then [CHR 0x5C, CHR ''t'']
         else if n = 10 then [CHR 0x5C, CHR ''n'']
         else if n = 12 then [CHR 0x5C, CHR ''f'']
         else if n = 13 then [CHR 0x5C, CHR ''r'']
         else if n < 32 then
           [CHR 0x5C, CHR ''u'', CHR ''0'', CHR ''0'', hex_digit (n div 16), hex_digit n]
         else [c])"

definition json_string :: "string \<Rightarrow> string" where
  "json_string s = CHR 0x22 # concat (map json_escape s) @ [CHR 0x22]"

definition json_member :: "string \<Rightarrow> string \<Rightarrow> string" where
  "json_member k v = json_string k @ '':'' @ v"

definition JSON_stringify :: "product \<Rightarrow> string" where
  "JSON_stringify p =
     ''{'' @ json_member ''product_id'' (show_int (product.product_id p))
     @ '','' @ json_member ''name'' (json_string (product.name p))
     @ '','' @ json_member ''description'' (json_string (product.description p))
     @ '','' @ json_member ''price'' (json_string (price p))
     @ '','' @ json_member ''discounted_price'' (json_string (discounted_price p))
     @ '','' @ json_member ''image'' (json_string (image_1 p))
     @ '','' @ json_member ''image_2'' (json_string (image_2 p))
     @ '','' @ json_member ''thumbnail'' (json_string (thumbnail p))
     @ '','' @ json_member ''display'' (show_int (display p))
     @ ''}''"

text \<open>
  The error catalogue \<open>../Error/error\<close> is not among the sources: it is a parameter of
  every handler that reads it, \<open>cat group code\<close> standing for \<open>error.group.code\<close>.
\<close>

type_synonym catalog = "string \<Rightarrow> string \<Rightarrow> string"

record error_obj =
  status :: nat
  code :: string
  message :: string
  field :: string

record paginationMeta =
  currentPage :: int
  currentPageSize :: int
  totalPages :: int
  totalRecords :: int

record receipt =
  name :: string
  review :: jsval
  rating :: jsval
  created_on :: int

datatype body =
    ErrorBody error_obj
  | Products "product list"
  | Paginated paginationMeta "product list"
  | AttributeValues "attribute_value list"
  | Categories "category list"
  | CategoryBody category
  | ReviewBody review
  | Receipt receipt

text \<open>
  What a handler does with the request: \<open>res.status(n).json(b)\<close>, \<open>next(error)\<close>, or
  returning without either.
\<close>

datatype response = Json nat body | Next exn | NoResponse

text \<open>\<open>req.query\<close> of the list endpoints and of the search endpoint.\<close>

record query =
  page :: jsval
  limit :: jsval
  offset :: jsval

record search_query =
  query_string :: jsval
  all_words :: jsval

record sqlQueryMap =
  description_length :: int
  page :: int
  limit :: int
  offset :: jsval
  totalPages :: int

section \<open>The handlers\<close>

subsection \<open>AttributeController.getAttributeValues\<close>

definition getAttributeValues :: "catalog \<Rightarrow> query \<Rightarrow> jsval \<Rightarrow> store \<Rightarrow> response \<times> store" where
  "getAttributeValues cat q attribute_id' s =
     (case AttributeValue_findAndCountAll attribute_id' (query.limit q) (query.offset q) s of
        (Inl e, s') \<Rightarrow> (Next e, s')
      | (Inr attribute, s') \<Rightarrow>
          if count attribute = 0 then
            (Json 404 (ErrorBody
               \<lparr>status = 404, code = ''ATR_01'',
                message = cat ''AttributeError'' ''ATR_01'' @ '' '' @ js_toString attribute_id',
                field = ''attribute_id''\<rparr>), s')
          else (Json 200 (AttributeValues (rows attribute)), s'))"

subsection \<open>ProductController.getAllProducts\<close>

definition getAllProducts_sqlQueryMap :: "query \<Rightarrow> sqlQueryMap" where
  "getAllProducts_sqlQueryMap q =
     \<lparr>description_length = 200, sqlQueryMap.page = 1, sqlQueryMap.limit = 1,
      sqlQueryMap.offset = query.offset q, sqlQueryMap.totalPages = 20\<rparr>"

definition getAllProducts :: "query \<Rightarrow> store \<Rightarrow> response \<times> store" where
  "getAllProducts q s =
     (let m = getAllProducts_sqlQueryMap q
      in case Product_findAndCountAll (JNum (sqlQueryMap.limit m)) (sqlQueryMap.offset m) s of
           (Inl e, s') \<Rightarrow> (Next e, s')
         | (Inr products, s') \<Rightarrow>
             (Json 200 (Paginated
                \<lparr>currentPage = sqlQueryMap.page m,
                 currentPageSize = sqlQueryMap.limit m,
                 paginationMeta.totalPages = sqlQueryMap.totalPages m,
                 totalRecords = int (count products)\<rparr>
                (rows products)), s'))"

subsection \<open>ProductController.searchProduct\<close>

definition searchProduct :: "catalog \<Rightarrow> search_query \<Rightarrow> store \<Rightarrow> response \<times> store" where
  "searchProduct cat q s =
     (if eq_undefined (all_words q) then
        (Json 404 (ErrorBody
           \<lparr>status = 404, code = ''USR_10'',
            message = ''all_words '' @ cat ''UsersError'' ''USR_10'',
            field = ''all_words''\<rparr>), s)
      else if eq_undefined (query_string q) then
        (Json 404 (ErrorBody
           \<lparr>status = 404, code = ''USR_10'',
            message = ''query_string '' @ cat ''UsersError'' ''USR_10'',
            field = ''query_string''\<rparr>), s)
      else
        (case Product_findAndCountAll JUndefined JUndefined s of
           (Inl e, s') \<Rightarrow> (Next e, s')
         | (Inr found, s') \<Rightarrow>
             (case toLowerCase_js (all_words q) of
                Inl e \<Rightarrow> (Next e, s')
              | Inr aw \<Rightarrow>
                  if aw = ''on'' then
                    (case filter_js
                            (\<lambda>d. case toLowerCase_js (query_string q) of
                                   Inl e \<Rightarrow> Inl e
                                 | Inr ql \<Rightarrow>
                                     Inr (indexOf (toLowerCase (JSON_stringify d)) ql \<noteq> - 1))
                            (rows found) of
                       Inl e \<Rightarrow> (Next e, s')
                     | Inr ds \<Rightarrow> (Json 200 (Products ds), s'))
                  else if aw = ''off'' then
                    (case filter_js
                            (\<lambda>d. Inr (indexOf (product.name d) (js_toString (query_string q))
                                        \<noteq> - 1))
                            (rows found) of
                       Inl e \<Rightarrow> (Next e, s')
                     | Inr ds \<Rightarrow> (Json 200 (Products ds), s'))
                  else (NoResponse, s'))))"

subsection \<open>ProductController.getProductReviews\<close>

definition getProductReviews :: "catalog \<Rightarrow> jsval \<Rightarrow> store \<Rightarrow> response \<times> store" where
  "getProductReviews cat product_id' s =
     (if truthy product_id' then
        (case Review_findByPk product_id' s of
           (Inl e, s') \<Rightarrow> (Next e, s')
         | (Inr (Some r), s') \<Rightarrow> (Json 200 (ReviewBody r), s')
         | (Inr None, s') \<Rightarrow>
             (Json 404 (ErrorBody
                \<lparr>status = 404, code = ''REV_01'',
                 message = cat ''ReviewError'' ''REV_01'' @ '' '' @ js_toString product_id',
                 field = ''product_id''\<rparr>), s'))
      else (NoResponse, s))"

subsection \<open>ProductController.postProductReviews\<close>

text \<open>
  A created review is an object, so the test \<open>if (review)\<close> after \<open>Review.create\<close>
  always passes: the 404 below is reached only when no product was found.
\<close>

definition postProductReviews :: "catalog \<Rightarrow> review_body \<Rightarrow> store \<Rightarrow> response \<times> store" where
  "postProductReviews cat b s =
     (let md = \<lparr>review_body.product_id = review_body.product_id b,
                review_body.review = review_body.review b,
                review_body.rating = review_body.rating b,
                metadata.customer_id = 0\<rparr>
      in case Product_findByPk (review_body.product_id md) s of
           (Inl e, s') \<Rightarrow> (Next e, s')
         | (Inr (Some p), s') \<Rightarrow>
             (case Review_create md s' of
                (Inl e, s'') \<Rightarrow> (Next e, s'')
              | (Inr r, s'') \<Rightarrow>
                  (Json 201 (Receipt
                     \<lparr>receipt.name = product.name p,
                      receipt.review = review_body.review md,
                      receipt.rating = review_body.rating md,
                      receipt.created_on = review.created_on r\<rparr>), s''))
         | (Inr None, s') \<Rightarrow>
             (Json 404 (ErrorBody
                \<lparr>status = 404, code = ''PRD_01'',
                 message = cat ''ProductError'' ''PRD_01'' @ '' ''
                           @ js_toString (review_body.product_id md),
                 field = ''product_id''\<rparr>), s'))"

subsection \<open>ProductController.getSingleCategory\<close>

definition getSingleCategory :: "catalog \<Rightarrow> jsval \<Rightarrow> store \<Rightarrow> response \<times> store" where
  "getSingleCategory cat category_id' s =
     (case Category_findByPk category_id' s of
        (Inl e, s') \<Rightarrow> (Next e, s')
      | (Inr (Some c), s') \<Rightarrow> (Json 200 (CategoryBody c), s')
      | (Inr None, s') \<Rightarrow>
          (Json 404 (ErrorBody
             \<lparr>status = 404, code = ''CAT_01'',
              message = cat ''CategoryError'' ''CAT_01'',
              field = ''category_id''\<rparr>), s'))"

subsection \<open>ProductController.getCategoryOfProduct\<close>

definition getCategoryOfProduct :: "catalog \<Rightarrow> jsval \<Rightarrow> store \<Rightarrow> response \<times> store" where
  "getCategoryOfProduct cat product_id' s =
     (case Category_findAndCountAll product_id' s of
        (Inl e, s') \<Rightarrow> (Next e, s')
      | (Inr found, s') \<Rightarrow>
          if count found = 0 then
            (Json 404 (ErrorBody
               \<lparr>status = 404, code = ''CAT_02'',
                message = cat ''CategoryError'' ''CAT_01'' @ '' '' @ js_toString product_id',
                field = ''product_id''\<rparr>), s')
          else (Json 200 (Categories (rows found)), s'))"

section \<open>Example stores\<close>

text \<open>
  A small shop: three products, three attributes of which one has no values, one
  category holding the first product, and one review, of the third product. The
  warehouse is the same shop with forty-five products.
\<close>

definition shoe :: product where
  "shoe = \<lparr>product.product_id = 1, product.name = ''Trail Runner'',
            product.description = ''A light shoe for rough ground'', price = ''59.00'',
            discounted_price = ''0.00'', image_1 = ''runner.gif'', image_2 = ''runner-2.gif'',
            thumbnail = ''runner-thumbnail.gif'', display = 0\<rparr>"

definition tee :: product where
  "tee = \<lparr>product.product_id = 2, product.name = ''Shoe Lace Tee'',
           product.description = ''Cotton shirt with a print of laces'', price = ''14.99'',
           discounted_price = ''12.50'', image_1 = ''tee.gif'', image_2 = ''tee-2.gif'',
           thumbnail = ''tee-thumbnail.gif'', display = 1\<rparr>"

definition mug :: product where
  "mug = \<lparr>product.product_id = 3, product.name = ''Harbour Mug'',
           product.description = ''Holds tea'', price = ''8.00'',
           discounted_price = ''0.00'', image_1 = ''mug.gif'', image_2 = ''mug-2.gif'',
           thumbnail = ''mug-thumbnail.gif'', display = 2\<rparr>"

definition mug_review :: review where
  "mug_review = \<lparr>review_body.product_id = JNum 3, review_body.review = JStr ''Keeps warm'',
                  review_body.rating = JNum 4, metadata.customer_id = 0,
                  review.review_id = 1, review.created_on = 900\<rparr>"

definition shop :: store where
  "shop = \<lparr>Product = [shoe, tee, mug],
            Attribute = [\<lparr>attribute.attribute_id = 1, attribute.name = ''Size''\<rparr>,
                         \<lparr>attribute.attribute_id = 2, attribute.name = ''Color''\<rparr>,
                         \<lparr>attribute.attribute_id = 3, attribute.name = ''Fabric''\<rparr>],
            AttributeValue =
              [\<lparr>attribute_value_id = 1, attribute_value.attribute_id = 1, av_value = ''S''\<rparr>,
               \<lparr>attribute_value_id = 2, attribute_value.attribute_id = 2, av_value = ''White''\<rparr>,
               \<lparr>attribute_value_id = 3, attribute_value.attribute_id = 1, av_value = ''M''\<rparr>],
            Category = [\<lparr>category_id = 1, department_id = 1, category.name = ''Outdoor'',
                          category.description = ''For the open air''\<rparr>],
            ProductCategory = [(1, 1)],
            Review = [mug_review],
            clock = 1000, available = True, issued = []\<rparr>"

definition numbered :: "nat \<Rightarrow> product" where
  "numbered i = mug\<lparr>product.product_id := int i\<rparr>"

definition warehouse :: store where
  "warehouse = shop\<lparr>Product := map numbered [1..<46]\<rparr>"

text \<open>A request for a list that gives neither \<open>limit\<close> nor \<open>offset\<close>.\<close>

definition no_bounds :: query where
  "no_bounds = \<lparr>query.page = JUndefined, query.limit = JUndefined, query.offset = JUndefined\<rparr>"

text \<open>
  An error catalogue for the examples: the template of a code is the code's own path
  in the catalogue, in brackets.
\<close>

definition templates :: catalog where
  "templates grp c = ''['' @ grp @ ''.'' @ c @ '']''"

section \<open>Facts about the strings and the store\<close>

text \<open>
  \<open>indexOf\<close> finds an occurrence exactly when there is one: the text is some prefix,
  then the searched string, then some suffix.
\<close>

lemma indexOf_from_sublist: "indexOf_from k s q \<noteq> - 1 \<longleftrightarrow> sublist q s"
  by (induction s arbitrary: k) (auto simp: sublist_Cons_right)

lemma indexOf_sublist: "indexOf s q \<noteq> - 1 \<longleftrightarrow> sublist q s"
  by (simp add: indexOf_def indexOf_from_sublist)

lemma filter_js_pure: "filter_js (\<lambda>x. Inr (P x)) xs = Inr (filter P xs)"
  by (induction xs) auto

lemma paginate_absent: "paginate JUndefined JUndefined xs = Some xs"
  by (simp add: paginate_def)

lemma Product_findAndCountAll_all:
  "available s \<Longrightarrow>
   Product_findAndCountAll JUndefined JUndefined s =
     (Inr \<lparr>count = length (Product s), rows = Product s\<rparr>, issue ''Product.findAndCountAll'' s)"
  by (simp add: Product_findAndCountAll_def findAndCountAll_def paginate_absent)

lemma issue_fields [simp]:
  "Product (issue n s) = Product s" "Review (issue n s) = Review s"
  "available (issue n s) = available s" "clock (issue n s) = clock s"
  "Attribute (issue n s) = Attribute s" "AttributeValue (issue n s) = AttributeValue s"
  "Category (issue n s) = Category s" "ProductCategory (issue n s) = ProductCategory s"
  "issued (issue n s) = issued s @ [n]"
  by (simp_all add: issue_def)

lemma findByPk_available:
  "available s \<Longrightarrow>
   findByPk model pk table key s =
     (Inr (find (\<lambda>r. key_eq key (pk r)) table), issue (model @ ''.findByPk'') s)"
  by (simp add: findByPk_def)

lemma findAndCountAll_available:
  "available s \<Longrightarrow> paginate lim off xs = Some pg \<Longrightarrow>
   findAndCountAll model xs lim off s =
     (Inr \<lparr>count = length xs, rows = pg\<rparr>, issue (model @ ''.findAndCountAll'') s)"
  by (simp add: findAndCountAll_def)

lemma paginate_subset: "paginate lim off xs = Some pg \<Longrightarrow> set pg \<subseteq> set xs"
  by (auto simp: paginate_def Let_def split: option.splits dest: in_set_takeD in_set_dropD)

lemma paginate_limit: "paginate (JNum 1) off xs = Some pg \<Longrightarrow> length pg \<le> 1"
  by (auto simp: paginate_def Let_def split: option.splits)

lemma values_of_attribute_member:
  "v \<in> set (values_of_attribute key s) \<Longrightarrow>
   v \<in> set (AttributeValue s) \<and> int_of_js key = Some (attribute_value.attribute_id v)"
  by (auto simp: values_of_attribute_def list_ex_iff key_eq_def)

lemma getAllProducts_available:
  "available s \<Longrightarrow> row_bound (query.offset q) = Some b \<Longrightarrow>
   getAllProducts q s =
     (Json 200 (Paginated
        \<lparr>currentPage = 1, currentPageSize = 1, paginationMeta.totalPages = 20,
         totalRecords = int (length (Product s))\<rparr>
        (take 1 (drop (case b of None \<Rightarrow> 0 | Some n \<Rightarrow> n) (Product s)))),
      issue ''Product.findAndCountAll'' s)"
  by (simp add: getAllProducts_def getAllProducts_sqlQueryMap_def Product_findAndCountAll_def
      findAndCountAll_def paginate_def)

subsection \<open>The example stores\<close>

lemma shop_available: "available shop"
  by (simp add: shop_def)
lemma shop_products: "Product shop = [shoe, tee, mug]"
  by (simp add: shop_def)
lemma shop_reviews: "Review shop = [mug_review]"
  by (simp add: shop_def)
lemma shop_clock: "clock shop = 1000"
  by (simp add: shop_def)
lemma warehouse_available: "available warehouse"
  by (simp add: warehouse_def shop_def)

lemma shop_values_1:
  "values_of_attribute (JStr ''1'') shop =
     [\<lparr>attribute_value_id = 1, attribute_value.attribute_id = 1, av_value = ''S''\<rparr>,
      \<lparr>attribute_value_id = 3, attribute_value.attribute_id = 1, av_value = ''M''\<rparr>]"
  by (simp add: values_of_attribute_def shop_def key_eq_def parse_decimal_def is_digit_def)

lemma shop_values_3: "values_of_attribute (JStr ''3'') shop = []"
  by (simp add: values_of_attribute_def shop_def key_eq_def parse_decimal_def is_digit_def)

section \<open>The product listing\<close>

text \<open>
  C1. The envelope of \<open>getAllProducts\<close> should report the true number of products as
  \<open>totalRecords\<close> and the ceiling of \<open>totalRecords / currentPageSize\<close> as \<open>totalPages\<close>.
  The handler reports the true count, but its page size and its number of pages are the
  constants 1 and 20: on forty-five products, asked for pages of twenty, it answers
  page size 1 and 20 pages, where forty-five records in pages of one make 45 pages and
  in pages of twenty make 3.
\<close>

theorem getAllProducts_meta_constants:
  "fst (getAllProducts \<lparr>query.page = JUndefined, query.limit = JStr ''20'',
                         query.offset = JUndefined\<rparr> warehouse) =
     Json 200 (Paginated
       \<lparr>currentPage = 1, currentPageSize = 1, paginationMeta.totalPages = 20,
        totalRecords = 45\<rparr> [numbered 1])"
proof -
  have b: "row_bound (query.offset \<lparr>query.page = JUndefined, query.limit = JStr ''20'',
                         query.offset = JUndefined\<rparr>) = Some None" by simp
  have n: "length (Product warehouse) = 45" by (simp add: warehouse_def)
  have t: "take (Suc 0) (Product warehouse) = [numbered 1]"
    by (simp add: warehouse_def take_map)
  show ?thesis
    by (simp add: getAllProducts_available [OF warehouse_available b] n t)
qed

text \<open>
  C9. \<open>getAllProducts\<close> ignores \<open>page\<close> and \<open>limit\<close> of the request: changing them
  changes nothing. The query it issues has the limit 1, so a response never carries
  more than one product. Only \<open>offset\<close> is passed on.
\<close>

theorem getAllProducts_one_row:
  "getAllProducts (q\<lparr>query.page := pg, query.limit := lim\<rparr>) s = getAllProducts q s \<and>
   sqlQueryMap.limit (getAllProducts_sqlQueryMap q) = 1 \<and>
   (\<forall>m rs. fst (getAllProducts q s) = Json 200 (Paginated m rs) \<longrightarrow> length rs \<le> 1)"
  by (auto simp: getAllProducts_def getAllProducts_sqlQueryMap_def Product_findAndCountAll_def
      findAndCountAll_def Let_def split: option.splits if_splits dest: paginate_limit)

text \<open>
  At the shop, the request for page 2, twenty per page, from offset 1 is answered with
  the second product alone, as the same request without \<open>page\<close> and \<open>limit\<close> is.
\<close>

theorem getAllProducts_one_row_witness:
  "fst (getAllProducts \<lparr>query.page = JStr ''2'', query.limit = JStr ''20'',
                         query.offset = JStr ''1''\<rparr> shop) =
     Json 200 (Paginated
       \<lparr>currentPage = 1, currentPageSize = 1, paginationMeta.totalPages = 20,
        totalRecords = 3\<rparr> [tee]) \<and>
   length [tee] \<le> 1 \<and>
   getAllProducts \<lparr>query.page = JUndefined, query.limit = JUndefined,
                    query.offset = JStr ''1''\<rparr> shop =
     getAllProducts \<lparr>query.page = JStr ''2'', query.limit = JStr ''20'',
                      query.offset = JStr ''1''\<rparr> shop"
proof -
  have b: "row_bound (query.offset \<lparr>query.page = JStr ''2'', query.limit = JStr ''20'',
                         query.offset = JStr ''1''\<rparr>) = Some (Some 1)"
    by (simp add: parse_decimal_def is_digit_def)
  have e: "fst (getAllProducts \<lparr>query.page = JStr ''2'', query.limit = JStr ''20'',
                         query.offset = JStr ''1''\<rparr> shop) =
     Json 200 (Paginated
       \<lparr>currentPage = 1, currentPageSize = 1, paginationMeta.totalPages = 20,
        totalRecords = 3\<rparr> [tee])"
    by (simp add: getAllProducts_available [OF shop_available b] shop_products)
  note t = getAllProducts_one_row
         [where q = "\<lparr>query.page = JStr ''2'', query.limit = JStr ''20'',
                       query.offset = JStr ''1''\<rparr>"
            and pg = JUndefined and lim = JUndefined and s = shop]
  from t have i: "getAllProducts \<lparr>query.page = JUndefined, query.limit = JUndefined,
                    query.offset = JStr ''1''\<rparr> shop =
     getAllProducts \<lparr>query.page = JStr ''2'', query.limit = JStr ''20'',
                      query.offset = JStr ''1''\<rparr> shop"
    by simp
  from t e have l: "length [tee] \<le> 1" by blast
  from e l i show ?thesis by (intro conjI)
qed

section \<open>Searching products\<close>

text \<open>
  C2. On a store that answers, a search with \<open>all_words\<close> reading \<open>on\<close> returns
  exactly the products whose serialized record, lowercased, contains the lowercased
  query string; with \<open>all_words\<close> reading \<open>off\<close> it returns exactly the products whose
  name contains the query string as it is written.
\<close>

theorem searchProduct_match_modes:
  "available s \<Longrightarrow>
   (toLowerCase aw = ''on'' \<longrightarrow>
      searchProduct cat \<lparr>query_string = JStr qs, all_words = JStr aw\<rparr> s =
        (Json 200 (Products
           (filter (\<lambda>p. sublist (toLowerCase qs) (toLowerCase (JSON_stringify p))) (Product s))),
         issue ''Product.findAndCountAll'' s)) \<and>
   (toLowerCase aw = ''off'' \<longrightarrow>
      searchProduct cat \<lparr>query_string = JStr qs, all_words = JStr aw\<rparr> s =
        (Json 200 (Products (filter (\<lambda>p. sublist qs (product.name p)) (Product s))),
         issue ''Product.findAndCountAll'' s))"
  by (simp add: searchProduct_def Product_findAndCountAll_all filter_js_pure indexOf_sublist)

text \<open>
  At the shop, \<open>SHOE\<close> in all fields finds the product whose description speaks of a
  shoe and the one named after one; \<open>Shoe\<close> in the name finds only the latter.
\<close>

theorem searchProduct_match_modes_witness:
  "available shop \<and> toLowerCase ''ON'' = ''on'' \<and> toLowerCase ''off'' = ''off'' \<and>
   fst (searchProduct templates \<lparr>query_string = JStr ''SHOE'', all_words = JStr ''ON''\<rparr> shop) =
     Json 200 (Products [shoe, tee]) \<and>
   fst (searchProduct templates \<lparr>query_string = JStr ''Shoe'', all_words = JStr ''off''\<rparr> shop) =
     Json 200 (Products [tee])"
proof -
  have a: "available shop" by (simp add: shop_def)
  have on: "toLowerCase ''ON'' = ''on''" and off: "toLowerCase ''off'' = ''off''"
    by (simp_all add: toLowerCase_def lower_char_def)
  have q: "toLowerCase ''SHOE'' = ''shoe''" by (simp add: toLowerCase_def lower_char_def)
  have s1: "sublist ''shoe'' (toLowerCase (JSON_stringify shoe))" by code_simp
  have s2: "sublist ''shoe'' (toLowerCase (JSON_stringify tee))" by code_simp
  have s3: "\<not> sublist ''shoe'' (toLowerCase (JSON_stringify mug))" by code_simp
  have n1: "\<not> sublist ''Shoe'' (product.name shoe)" by code_simp
  have n2: "sublist ''Shoe'' (product.name tee)" by code_simp
  have n3: "\<not> sublist ''Shoe'' (product.name mug)" by code_simp
  have p: "Product shop = [shoe, tee, mug]" by (simp add: shop_def)
  from searchProduct_match_modes [OF a, of "''ON''" templates "''SHOE''"]
       searchProduct_match_modes [OF a, of "''off''" templates "''Shoe''"]
  show ?thesis using a on off by (simp add: q s1 s2 s3 n1 n2 n3 p)
qed

text \<open>
  C8. A search request that lacks \<open>all_words\<close> or \<open>query_string\<close> is answered with
  status 404, code \<open>USR_10\<close> and the name of a lacking parameter as the field; the
  store is returned as it was, no call to it having been made.
\<close>

theorem searchProduct_missing_parameter:
  "eq_undefined (all_words q) \<or> eq_undefined (query_string q) \<Longrightarrow>
   searchProduct cat q s =
     (Json 404 (ErrorBody
        \<lparr>status = 404, code = ''USR_10'',
         message = (if eq_undefined (all_words q) then ''all_words'' else ''query_string'')
                   @ '' '' @ cat ''UsersError'' ''USR_10'',
         field = (if eq_undefined (all_words q) then ''all_words'' else ''query_string'')\<rparr>),
      s)"
  by (auto simp: searchProduct_def)

theorem searchProduct_missing_parameter_witness:
  "eq_undefined (all_words \<lparr>query_string = JStr ''shoe'', all_words = JUndefined\<rparr>) \<and>
   searchProduct templates \<lparr>query_string = JStr ''shoe'', all_words = JUndefined\<rparr> shop =
     (Json 404 (ErrorBody
        \<lparr>status = 404, code = ''USR_10'',
         message = ''all_words '' @ templates ''UsersError'' ''USR_10'', field = ''all_words''\<rparr>),
      shop) \<and>
   eq_undefined (query_string \<lparr>query_string = JUndefined, all_words = JStr ''on''\<rparr>) \<and>
   searchProduct templates \<lparr>query_string = JUndefined, all_words = JStr ''on''\<rparr> shop =
     (Json 404 (ErrorBody
        \<lparr>status = 404, code = ''USR_10'',
         message = ''query_string '' @ templates ''UsersError'' ''USR_10'', field = ''query_string''\<rparr>),
      shop)"
proof -
  have a: "eq_undefined (all_words \<lparr>query_string = JStr ''shoe'', all_words = JUndefined\<rparr>) \<or>
           eq_undefined (query_string \<lparr>query_string = JStr ''shoe'', all_words = JUndefined\<rparr>)"
    by simp
  have b: "eq_undefined (all_words \<lparr>query_string = JUndefined, all_words = JStr ''on''\<rparr>) \<or>
           eq_undefined (query_string \<lparr>query_string = JUndefined, all_words = JStr ''on''\<rparr>)"
    by simp
  from searchProduct_missing_parameter [OF a, of templates shop]
       searchProduct_missing_parameter [OF b, of templates shop]
  show ?thesis by simp
qed

text \<open>
  C10. When \<open>query_string\<close> is present and \<open>all_words\<close> is a string that reads
  neither \<open>on\<close> nor \<open>off\<close>, the search handler returns without responding.
\<close>

theorem searchProduct_no_response:
  "available s \<Longrightarrow> \<not> eq_undefined (query_string q) \<Longrightarrow> all_words q = JStr aw \<Longrightarrow>
   toLowerCase aw \<noteq> ''on'' \<Longrightarrow> toLowerCase aw \<noteq> ''off'' \<Longrightarrow>
   fst (searchProduct cat q s) = NoResponse"
  by (simp add: searchProduct_def Product_findAndCountAll_all)

theorem searchProduct_no_response_witness:
  "available shop \<and>
   \<not> eq_undefined (query_string \<lparr>query_string = JStr ''shoe'', all_words = JStr ''maybe''\<rparr>) \<and>
   toLowerCase ''maybe'' \<noteq> ''on'' \<and> toLowerCase ''maybe'' \<noteq> ''off'' \<and>
   fst (searchProduct templates \<lparr>query_string = JStr ''shoe'', all_words = JStr ''maybe''\<rparr> shop) =
     NoResponse"
proof -
  have q: "\<not> eq_undefined (query_string \<lparr>query_string = JStr ''shoe'', all_words = JStr ''maybe''\<rparr>)"
    by simp
  have w: "all_words \<lparr>query_string = JStr ''shoe'', all_words = JStr ''maybe''\<rparr> = JStr ''maybe''"
    by simp
  have n1: "toLowerCase ''maybe'' \<noteq> ''on''" and n2: "toLowerCase ''maybe'' \<noteq> ''off''"
    by (simp_all add: toLowerCase_def lower_char_def)
  from searchProduct_no_response [OF shop_available q w n1 n2, of templates] q n1 n2
  show ?thesis by (simp add: shop_available)
qed

section \<open>Reviews\<close>

text \<open>
  C3. When no product has the id given in the body, \<open>postProductReviews\<close> answers
  404 with code \<open>PRD_01\<close>, and the store differs from the one before only by the
  logged lookup: the reviews are the same.
\<close>

theorem postProductReviews_unknown_product:
  "available s \<Longrightarrow>
   \<forall>p \<in> set (Product s). \<not> key_eq (review_body.product_id b) (product.product_id p) \<Longrightarrow>
   postProductReviews cat b s =
     (Json 404 (ErrorBody
        \<lparr>status = 404, code = ''PRD_01'',
         message = cat ''ProductError'' ''PRD_01'' @ '' '' @ js_toString (review_body.product_id b),
         field = ''product_id''\<rparr>),
      issue ''Product.findByPk'' s)
   \<and> Review (snd (postProductReviews cat b s)) = Review s"
proof -
  assume a: "available s"
    and n: "\<forall>p \<in> set (Product s). \<not> key_eq (review_body.product_id b) (product.product_id p)"
  from n have "find (\<lambda>p. key_eq (review_body.product_id b) (product.product_id p)) (Product s) = None"
    by (simp add: find_None_iff)
  with a show ?thesis
    by (simp add: postProductReviews_def Product_findByPk_def findByPk_available)
qed

theorem postProductReviews_unknown_product_witness:
  "available shop \<and>
   list_all (\<lambda>p. \<not> key_eq (JNum 9) (product.product_id p)) (Product shop) \<and>
   fst (postProductReviews templates
          \<lparr>review_body.product_id = JNum 9, review = JStr ''Fine'', rating = JNum 5\<rparr> shop) =
     Json 404 (ErrorBody
       \<lparr>status = 404, code = ''PRD_01'',
        message = templates ''ProductError'' ''PRD_01'' @ '' 9'', field = ''product_id''\<rparr>) \<and>
   Review (snd (postProductReviews templates
          \<lparr>review_body.product_id = JNum 9, review = JStr ''Fine'', rating = JNum 5\<rparr> shop)) =
     [mug_review]"
proof -
  have h: "\<forall>p \<in> set (Product shop). \<not> key_eq (review_body.product_id
      \<lparr>review_body.product_id = JNum 9, review = JStr ''Fine'', rating = JNum 5\<rparr>) (product.product_id p)"
    by (simp add: shop_products key_eq_def shoe_def tee_def mug_def)
  have d: "show_int 9 = ''9''" by (simp add: show_int_def digit_def)
  from postProductReviews_unknown_product [OF shop_available h, of templates] h
  show ?thesis by (simp add: shop_available shop_reviews d list_all_iff)
qed

text \<open>
  C4. When the lookup finds a product, \<open>postProductReviews\<close> answers 201 with a
  receipt of the product's name, the review text and rating of the body, and the time
  the store stamped on the new row; the row appended to the reviews has customer 0.
\<close>

theorem postProductReviews_receipt:
  "available s \<Longrightarrow>
   find (\<lambda>x. key_eq (review_body.product_id b) (product.product_id x)) (Product s) = Some p \<Longrightarrow>
   postProductReviews cat b s =
     (Json 201 (Receipt
        \<lparr>receipt.name = product.name p, receipt.review = review_body.review b,
         receipt.rating = review_body.rating b, receipt.created_on = clock s\<rparr>),
      (issue ''Review.create'' (issue ''Product.findByPk'' s))
        \<lparr>Review := Review s @
           [\<lparr>review_body.product_id = review_body.product_id b,
             review_body.review = review_body.review b,
             review_body.rating = review_body.rating b,
             metadata.customer_id = 0,
             review.review_id = foldr max (map review_id (Review s)) 0 + 1,
             review.created_on = clock s\<rparr>]\<rparr>)"
  by (simp add: postProductReviews_def Product_findByPk_def findByPk_available Review_create_def
      Let_def)

theorem postProductReviews_receipt_witness:
  "available shop \<and>
   find (\<lambda>x. key_eq (JStr ''2'') (product.product_id x)) (Product shop) = Some tee \<and>
   fst (postProductReviews templates
          \<lparr>review_body.product_id = JStr ''2'', review = JStr ''Fits well'', rating = JNum 5\<rparr>
          shop) =
     Json 201 (Receipt
       \<lparr>receipt.name = ''Shoe Lace Tee'', receipt.review = JStr ''Fits well'',
        receipt.rating = JNum 5, receipt.created_on = 1000\<rparr>) \<and>
   Review (snd (postProductReviews templates
          \<lparr>review_body.product_id = JStr ''2'', review = JStr ''Fits well'', rating = JNum 5\<rparr>
          shop)) =
     [mug_review,
      \<lparr>review_body.product_id = JStr ''2'', review_body.review = JStr ''Fits well'',
       review_body.rating = JNum 5, metadata.customer_id = 0,
       review.review_id = 2, review.created_on = 1000\<rparr>]"
proof -
  have f: "find (\<lambda>x. key_eq (review_body.product_id
      \<lparr>review_body.product_id = JStr ''2'', review = JStr ''Fits well'', rating = JNum 5\<rparr>)
        (product.product_id x)) (Product shop) = Some tee"
    by (simp add: shop_products key_eq_def parse_decimal_def is_digit_def shoe_def tee_def)
  have n: "product.name tee = ''Shoe Lace Tee''" by (simp add: tee_def)
  have i: "review_id mug_review = 1" by (simp add: mug_review_def)
  from postProductReviews_receipt [OF shop_available f, of templates] f
  show ?thesis by (simp add: shop_available shop_reviews shop_clock n i)
qed

text \<open>
  C6. For a truthy \<open>product_id\<close>, \<open>getProductReviews\<close> answers with the one review
  whose own id is that value, and with 404, code \<open>REV_01\<close> and field \<open>product_id\<close>
  when no review has that id.
\<close>

theorem getProductReviews_by_review_id:
  "truthy pid \<Longrightarrow> available s \<Longrightarrow>
   fst (getProductReviews cat pid s) =
     (case find (\<lambda>r. key_eq pid (review_id r)) (Review s) of
        Some r \<Rightarrow> Json 200 (ReviewBody r)
      | None \<Rightarrow>
          Json 404 (ErrorBody
            \<lparr>status = 404, code = ''REV_01'',
             message = cat ''ReviewError'' ''REV_01'' @ '' '' @ js_toString pid,
             field = ''product_id''\<rparr>))"
  by (simp add: getProductReviews_def Review_findByPk_def findByPk_available split: option.splits)

text \<open>
  The shop's only review has id 1 and is about product 3: asking with 1 returns it,
  asking with 3 finds nothing.
\<close>

theorem getProductReviews_by_review_id_witness:
  "truthy (JStr ''1'') \<and> truthy (JStr ''3'') \<and> available shop \<and>
   review_body.product_id mug_review = JNum 3 \<and>
   fst (getProductReviews templates (JStr ''1'') shop) = Json 200 (ReviewBody mug_review) \<and>
   fst (getProductReviews templates (JStr ''3'') shop) =
     Json 404 (ErrorBody
       \<lparr>status = 404, code = ''REV_01'',
        message = templates ''ReviewError'' ''REV_01'' @ '' 3'', field = ''product_id''\<rparr>)"
proof -
  have t1: "truthy (JStr ''1'')" and t3: "truthy (JStr ''3'')" by simp_all
  have f1: "find (\<lambda>r. key_eq (JStr ''1'') (review_id r)) (Review shop) = Some mug_review"
    by (simp add: shop_reviews key_eq_def parse_decimal_def is_digit_def mug_review_def)
  have f3: "find (\<lambda>r. key_eq (JStr ''3'') (review_id r)) (Review shop) = None"
    by (simp add: shop_reviews key_eq_def parse_decimal_def is_digit_def mug_review_def)
  have m: "review_body.product_id mug_review = JNum 3" by (simp add: mug_review_def)
  from getProductReviews_by_review_id [OF t1 shop_available, of templates]
       getProductReviews_by_review_id [OF t3 shop_available, of templates]
  show ?thesis by (simp add: shop_available f1 f3 m)
qed

section \<open>Attribute values\<close>

text \<open>
  C5. On a store that answers a well-formed page request, \<open>getAttributeValues\<close>
  returns, for an attribute with values, a page of stored attribute values that all
  have the given attribute as parent, and for an attribute without values 404 with code
  \<open>ATR_01\<close>.
\<close>

theorem getAttributeValues_by_parent:
  "available s \<Longrightarrow>
   paginate (query.limit q) (query.offset q) (values_of_attribute aid s) = Some pg \<Longrightarrow>
   (values_of_attribute aid s \<noteq> [] \<longrightarrow>
      fst (getAttributeValues cat q aid s) = Json 200 (AttributeValues pg) \<and>
      (\<forall>v \<in> set pg. v \<in> set (AttributeValue s) \<and>
                     int_of_js aid = Some (attribute_value.attribute_id v))) \<and>
   (values_of_attribute aid s = [] \<longrightarrow>
      fst (getAttributeValues cat q aid s) =
        Json 404 (ErrorBody
          \<lparr>status = 404, code = ''ATR_01'',
           message = cat ''AttributeError'' ''ATR_01'' @ '' '' @ js_toString aid,
           field = ''attribute_id''\<rparr>))"
proof -
  assume a: "available s"
    and p: "paginate (query.limit q) (query.offset q) (values_of_attribute aid s) = Some pg"
  have r: "\<forall>v \<in> set pg. v \<in> set (AttributeValue s) \<and>
                     int_of_js aid = Some (attribute_value.attribute_id v)"
    using paginate_subset [OF p] values_of_attribute_member by blast
  have e: "AttributeValue_findAndCountAll aid (query.limit q) (query.offset q) s =
             (Inr \<lparr>count = length (values_of_attribute aid s), rows = pg\<rparr>,
              issue ''AttributeValue.findAndCountAll'' s)"
    using findAndCountAll_available [OF a p] by (simp add: AttributeValue_findAndCountAll_def)
  show ?thesis
    using r by (simp add: getAttributeValues_def e)
qed

theorem getAttributeValues_by_parent_witness:
  "available shop \<and>
   paginate (query.limit no_bounds) (query.offset no_bounds) (values_of_attribute (JStr ''1'') shop) =
     Some [\<lparr>attribute_value_id = 1, attribute_value.attribute_id = 1, av_value = ''S''\<rparr>,
           \<lparr>attribute_value_id = 3, attribute_value.attribute_id = 1, av_value = ''M''\<rparr>] \<and>
   values_of_attribute (JStr ''1'') shop \<noteq> [] \<and>
   fst (getAttributeValues templates no_bounds (JStr ''1'') shop) =
     Json 200 (AttributeValues
       [\<lparr>attribute_value_id = 1, attribute_value.attribute_id = 1, av_value = ''S''\<rparr>,
        \<lparr>attribute_value_id = 3, attribute_value.attribute_id = 1, av_value = ''M''\<rparr>]) \<and>
   paginate (query.limit no_bounds) (query.offset no_bounds) (values_of_attribute (JStr ''3'') shop) =
     Some [] \<and>
   values_of_attribute (JStr ''3'') shop = [] \<and>
   fst (getAttributeValues templates no_bounds (JStr ''3'') shop) =
     Json 404 (ErrorBody
       \<lparr>status = 404, code = ''ATR_01'',
        message = templates ''AttributeError'' ''ATR_01'' @ '' 3'', field = ''attribute_id''\<rparr>)"
proof -
  have p1: "paginate (query.limit no_bounds) (query.offset no_bounds)
              (values_of_attribute (JStr ''1'') shop) =
            Some [\<lparr>attribute_value_id = 1, attribute_value.attribute_id = 1, av_value = ''S''\<rparr>,
                  \<lparr>attribute_value_id = 3, attribute_value.attribute_id = 1, av_value = ''M''\<rparr>]"
    by (simp add: no_bounds_def paginate_absent shop_values_1)
  have p3: "paginate (query.limit no_bounds) (query.offset no_bounds)
              (values_of_attribute (JStr ''3'') shop) = Some []"
    by (simp add: no_bounds_def paginate_absent shop_values_3)
  from getAttributeValues_by_parent [OF shop_available p1, of templates]
       getAttributeValues_by_parent [OF shop_available p3, of templates] p1 p3
  show ?thesis by (simp add: shop_available shop_values_1 shop_values_3)
qed

section \<open>Messages of the category handlers\<close>

text \<open>
  C7. Every not-found error should carry the catalogue's template for its own code
  with the offending identifier put in. \<open>getCategoryOfProduct\<close> answers with code
  \<open>CAT_02\<close> and the template of \<open>CAT_01\<close>; \<open>getSingleCategory\<close> answers with the bare
  template, the identifier left out.
\<close>

theorem category_messages_off_catalogue:
  "fst (getCategoryOfProduct templates (JStr ''2'') shop) =
     Json 404 (ErrorBody
       \<lparr>status = 404, code = ''CAT_02'',
        message = ''[CategoryError.CAT_01] 2'', field = ''product_id''\<rparr>) \<and>
   fst (getSingleCategory templates (JStr ''5'') shop) =
     Json 404 (ErrorBody
       \<lparr>status = 404, code = ''CAT_01'',
        message = ''[CategoryError.CAT_01]'', field = ''category_id''\<rparr>)"
proof -
  have c: "categories_of_product (JStr ''2'') shop = []"
    by (simp add: categories_of_product_def shop_def key_eq_def parse_decimal_def is_digit_def)
  have f: "find (\<lambda>r. key_eq (JStr ''5'') (category_id r)) (Category shop) = None"
    by (simp add: shop_def key_eq_def parse_decimal_def is_digit_def)
  show ?thesis
    by (simp add: getCategoryOfProduct_def Category_findAndCountAll_def getSingleCategory_def
        Category_findByPk_def findByPk_available findAndCountAll_available paginate_absent
        shop_available c f templates_def)
qed

end
